theory Spec2Isabelle
  imports Main "HOL-Library.Multiset"
begin

section \<open>Values of the request and of the runtime\<close>

text \<open>
  The handlers of the queue service read untyped fields of an Express request
  (\<^verbatim>\<open>req.params\<close>, \<^verbatim>\<open>req.query\<close>, \<^verbatim>\<open>req.body\<close>) and hand them to the record store.
  Each of the three is the object that the framework and its JSON middleware leave there.
  A field holds a JavaScript primitive; nested objects and arrays are outside this model.
  Numbers are the integers and \<open>NaN\<close>; fractional and infinite doubles are outside it too.
  A field that is absent reads as \<open>undefined\<close>, as a property access does.
\<close>

datatype jsnum = Fin int | NaN

datatype jsval = JUndefined | JNull | JBool bool | JNumber jsnum | JStr string

type_synonym jsobj = "(string \<times> jsval) list"

definition getProp :: "jsobj \<Rightarrow> string \<Rightarrow> jsval" where
  "getProp obj k = (case map_of obj k of None \<Rightarrow> JUndefined | Some v \<Rightarrow> v)"

record request =
  params :: jsobj
  query :: jsobj
  body :: jsobj

text \<open>A point in time, in milliseconds since the epoch: what a \<^verbatim>\<open>Date\<close> holds and what
  its ISO string denotes.\<close>

type_synonym instant = int

section \<open>The record store\<close>

text \<open>
  One row of the \<^verbatim>\<open>queue\<close> table. The scope of a row is its doctor, its appointment date
  and its hospital; \<open>hospitalId\<close> is an identifier, stored as it was written (a number or a
  string). \<open>ticketId\<close> is the reference to the ticket that \<^verbatim>\<open>include: { ticket: true }\<close>
  follows.
\<close>

record queue_row =
  doctorId :: int
  appointmentDate :: instant
  hospitalId :: jsval
  position :: int
  pending :: bool
  ticketId :: int

record future_row =
  f_doctorId :: jsval
  f_patientId :: jsval
  futureAppointmentDate :: instant
  "notes" :: jsval

record ledger =
  queue :: "queue_row list"
  ticket :: "(int \<times> jsobj) list"
  futureReference :: "future_row list"

text \<open>The \<^verbatim>\<open>where\<close> argument of a query on the \<^verbatim>\<open>queue\<close> table, one field for each
  condition that some handler writes; \<open>None\<close> is a condition the handler leaves out.\<close>

record where_clause =
  w_doctorId :: jsnum
  w_appointmentDate :: instant
  w_hospitalId :: jsval
  w_position :: "jsnum option"
  w_pending :: "bool option"

datatype ledger_call =
  FindMany where_clause
| DeleteMany where_clause
| UpdateMany where_clause
| Create future_row

text \<open>
  What the handlers use and this repository's sources do not define:
  \<^item> \<open>queueRequest\<close>: the schema of \<^verbatim>\<open>QueueServiceTypes\<close>, as the verdict
    \<^verbatim>\<open>queueRequest.safeParse(body).success\<close>;
  \<^item> \<open>stringToNumber\<close>: what \<^verbatim>\<open>Number\<close> makes of a string;
  \<^item> \<open>dateToISOString\<close>: \<^verbatim>\<open>new Date(v).toISOString()\<close>, \<open>None\<close> where the date is
    invalid and \<^verbatim>\<open>toISOString\<close> throws a \<^verbatim>\<open>RangeError\<close>;
  \<^item> \<open>ledgerFails\<close>: the calls that the store's client rejects by throwing (a value it
    does not accept for a column, the store being unreachable).
  Every handler takes them as a parameter, so a theorem holds for each choice of them.
\<close>

record env =
  queueRequest :: "jsobj \<Rightarrow> bool"
  stringToNumber :: "string \<Rightarrow> jsnum"
  dateToISOString :: "jsval \<Rightarrow> instant option"
  ledgerFails :: "ledger_call \<Rightarrow> bool"

text \<open>\<^verbatim>\<open>Number(v)\<close> on a primitive.\<close>

definition Number_js :: "env \<Rightarrow> jsval \<Rightarrow> jsnum" where
  "Number_js e v =
     (case v of
        JUndefined \<Rightarrow> NaN
      | JNull \<Rightarrow> Fin 0
      | JBool b \<Rightarrow> Fin (if b then 1 else 0)
      | JNumber n \<Rightarrow> n
      | JStr s \<Rightarrow> stringToNumber e s)"

text \<open>
  A row satisfies a \<^verbatim>\<open>where\<close> argument when it equals it on every condition. The client
  of the store ignores a condition whose value is \<open>undefined\<close>: of the conditions here only
  \<open>hospitalId\<close> can be, the others are results of \<^verbatim>\<open>Number\<close>, of \<^verbatim>\<open>toISOString\<close> or
  literals.
\<close>

definition matches :: "where_clause \<Rightarrow> queue_row \<Rightarrow> bool" where
  "matches w r \<longleftrightarrow>
     w_doctorId w = Fin (doctorId r) \<and>
     w_appointmentDate w = appointmentDate r \<and>
     (w_hospitalId w = JUndefined \<or> w_hospitalId w = hospitalId r) \<and>
     (case w_position w of None \<Rightarrow> True | Some p \<Rightarrow> p = Fin (position r)) \<and>
     (case w_pending w of None \<Rightarrow> True | Some b \<Rightarrow> b = pending r)"

definition findMany :: "where_clause \<Rightarrow> queue_row list \<Rightarrow> queue_row list" where
  "findMany w rows = filter (matches w) rows"

text \<open>\<^verbatim>\<open>orderBy: { position: "asc" }\<close>; rows of equal position keep the order of the table.\<close>

definition orderByPosition :: "queue_row list \<Rightarrow> queue_row list" where
  "orderByPosition rows = sort_key position rows"

text \<open>\<^verbatim>\<open>include: { ticket: true }\<close>: each row with the ticket it refers to.\<close>

definition includeTicket :: "(int \<times> jsobj) list \<Rightarrow> queue_row list \<Rightarrow> (queue_row \<times> jsobj option) list" where
  "includeTicket tickets rows = map (\<lambda>r. (r, map_of tickets (ticketId r))) rows"

definition deleteMany :: "where_clause \<Rightarrow> queue_row list \<Rightarrow> queue_row list" where
  "deleteMany w rows = filter (\<lambda>r. \<not> matches w r) rows"

text \<open>\<^verbatim>\<open>updateMany({ data: { pending: true }, where })\<close>.\<close>

definition updateMany :: "where_clause \<Rightarrow> queue_row list \<Rightarrow> queue_row list" where
  "updateMany w rows = map (\<lambda>r. if matches w r then r\<lparr>pending := True\<rparr> else r) rows"

section \<open>Responses\<close>

datatype payload =
  Message string
| Queues "(queue_row \<times> jsobj option) list"
| Position "int option"
| Total nat
| FutureReference future_row

record response =
  status :: nat
  json :: payload

text \<open>What a handler leaves behind: the response it sent, the store after it, and the
  calls it made to the store, in order.\<close>

record outcome =
  response :: response
  store :: ledger
  calls :: "ledger_call list"

definition reply :: "ledger \<Rightarrow> ledger_call list \<Rightarrow> nat \<Rightarrow> payload \<Rightarrow> outcome" where
  "reply L cs st p = \<lparr>response = \<lparr>status = st, json = p\<rparr>, store = L, calls = cs\<rparr>"

section \<open>The handlers of the queue service\<close>

definition getDoctorQueue :: "env \<Rightarrow> request \<Rightarrow> ledger \<Rightarrow> outcome" where
  "getDoctorQueue e req L =
     (if \<not> queueRequest e (body req) then reply L [] 400 (Message ''Invalid request'')
      else
        let doctorId = getProp (params req) ''doctorId'';
            appointmentDate = getProp (body req) ''appointmentDate'';
            hospitalId = getProp (body req) ''hospitalId''
        in case dateToISOString e appointmentDate of
             None \<Rightarrow> reply L [] 500 (Message ''Can't retrieve Queue data'')
           | Some isoDate \<Rightarrow>
               let w = \<lparr>w_doctorId = Number_js e doctorId, w_appointmentDate = isoDate,
                        w_hospitalId = hospitalId, w_position = None, w_pending = None\<rparr>
               in if ledgerFails e (FindMany w)
                  then reply L [FindMany w] 500 (Message ''Can't retrieve Queue data'')
                  else reply L [FindMany w] 200
                         (Queues (includeTicket (ticket L) (orderByPosition (findMany w (queue L))))))"

definition getPatientQueuePosition :: "env \<Rightarrow> request \<Rightarrow> ledger \<Rightarrow> outcome" where
  "getPatientQueuePosition e req L =
     (if \<not> queueRequest e (body req) then reply L [] 400 (Message ''Invalid request'')
      else
        let doctorId = getProp (query req) ''doctorId'';
            appointmentDate = getProp (body req) ''appointmentDate'';
            hospitalId = getProp (body req) ''hospitalId''
        in case dateToISOString e appointmentDate of
             None \<Rightarrow> reply L [] 500 (Message ''Can't retrieve Queue status data'')
           | Some isoDate \<Rightarrow>
               let w = \<lparr>w_doctorId = Number_js e doctorId, w_appointmentDate = isoDate,
                        w_hospitalId = hospitalId, w_position = None, w_pending = Some False\<rparr>
               in if ledgerFails e (FindMany w)
                  then reply L [FindMany w] 500 (Message ''Can't retrieve Queue status data'')
                  else
                    let order = map position (orderByPosition (findMany w (queue L)))
                    in reply L [FindMany w] 200
                         (Position (case order of [] \<Rightarrow> None | p # _ \<Rightarrow> Some p)))"

definition getQueueTotal :: "env \<Rightarrow> request \<Rightarrow> ledger \<Rightarrow> outcome" where
  "getQueueTotal e req L =
     (if \<not> queueRequest e (body req) then reply L [] 400 (Message ''Invalid request'')
      else
        let doctorId = getProp (query req) ''doctorId'';
            appointmentDate = getProp (body req) ''appointmentDate'';
            hospitalId = getProp (body req) ''hospitalId''
        in case dateToISOString e appointmentDate of
             None \<Rightarrow> reply L [] 500 (Message ''Can't retrieve Queue status data'')
           | Some isoDate \<Rightarrow>
               let w = \<lparr>w_doctorId = Number_js e doctorId, w_appointmentDate = isoDate,
                        w_hospitalId = hospitalId, w_position = None, w_pending = None\<rparr>
               in if ledgerFails e (FindMany w)
                  then reply L [FindMany w] 500 (Message ''Can't retrieve Queue status data'')
                  else
                    let order = map position (findMany w (queue L))
                    in reply L [FindMany w] 200 (Total (length order)))"

definition deleteQueueEntry :: "env \<Rightarrow> request \<Rightarrow> ledger \<Rightarrow> outcome" where
  "deleteQueueEntry e req L =
     (if \<not> queueRequest e (body req) then reply L [] 400 (Message ''Invalid request'')
      else
        let doctorId = getProp (query req) ''doctorId'';
            position = getProp (query req) ''position'';
            appointmentDate = getProp (body req) ''appointmentDate'';
            hospitalId = getProp (body req) ''hospitalId''
        in case dateToISOString e appointmentDate of
             None \<Rightarrow> reply L [] 500 (Message ''Can't delete Queue status data'')
           | Some isoDate \<Rightarrow>
               let w = \<lparr>w_doctorId = Number_js e doctorId, w_appointmentDate = isoDate,
                        w_hospitalId = hospitalId, w_position = Some (Number_js e position),
                        w_pending = None\<rparr>
               in if ledgerFails e (DeleteMany w)
                  then reply L [DeleteMany w] 500 (Message ''Can't delete Queue status data'')
                  else reply (L\<lparr>queue := deleteMany w (queue L)\<rparr>) [DeleteMany w] 200
                         (Message ''Queue deleted successfully''))"

definition createFutureAppointment :: "env \<Rightarrow> request \<Rightarrow> ledger \<Rightarrow> outcome" where
  "createFutureAppointment e req L =
     (let doctorId = getProp (body req) ''doctorId'';
          patientId = getProp (body req) ''patientId'';
          nextdate = getProp (body req) ''nextdate'';
          notes = getProp (body req) ''notes''
      in case dateToISOString e nextdate of
           None \<Rightarrow> reply L [] 500 (Message ''Server error'')
         | Some isoDate \<Rightarrow>
             let futureReference = \<lparr>f_doctorId = doctorId, f_patientId = patientId,
                                    futureAppointmentDate = isoDate, notes = notes\<rparr>
             in if ledgerFails e (Create futureReference)
                then reply L [Create futureReference] 500 (Message ''Server error'')
                else reply (L\<lparr>futureReference := ledger.futureReference L @ [futureReference]\<rparr>)
                       [Create futureReference] 201 (FutureReference futureReference))"

definition markQueueEntryPending :: "env \<Rightarrow> request \<Rightarrow> ledger \<Rightarrow> outcome" where
  "markQueueEntryPending e req L =
     (if \<not> queueRequest e (body req) then reply L [] 400 (Message ''Invalid request'')
      else
        let doctorId = getProp (query req) ''doctorId'';
            position = getProp (query req) ''position'';
            appointmentDate = getProp (body req) ''appointmentDate'';
            hospitalId = getProp (body req) ''hospitalId''
        in case dateToISOString e appointmentDate of
             None \<Rightarrow> reply L [] 500 (Message ''Can't update Queue status data'')
           | Some isoDate \<Rightarrow>
               let w = \<lparr>w_doctorId = Number_js e doctorId, w_appointmentDate = isoDate,
                        w_hospitalId = JNumber (Number_js e hospitalId),
                        w_position = Some (Number_js e position), w_pending = None\<rparr>
               in if ledgerFails e (UpdateMany w)
                  then reply L [UpdateMany w] 500 (Message ''Can't update Queue status data'')
                  else reply (L\<lparr>queue := updateMany w (queue L)\<rparr>) [UpdateMany w] 200
                         (Message ''Queue entry marked as pending successfully''))"

section \<open>Serving requests\<close>

text \<open>The six handlers behind one entry point, and the store after a list of requests
  served one after the other.\<close>

datatype operation =
  GetDoctorQueue
| GetPatientQueuePosition
| GetQueueTotal
| DeleteQueueEntry
| CreateFutureAppointment
| MarkQueueEntryPending

fun handle :: "env \<Rightarrow> operation \<Rightarrow> request \<Rightarrow> ledger \<Rightarrow> outcome" where
  "handle e GetDoctorQueue req L = getDoctorQueue e req L"
| "handle e GetPatientQueuePosition req L = getPatientQueuePosition e req L"
| "handle e GetQueueTotal req L = getQueueTotal e req L"
| "handle e DeleteQueueEntry req L = deleteQueueEntry e req L"
| "handle e CreateFutureAppointment req L = createFutureAppointment e req L"
| "handle e MarkQueueEntryPending req L = markQueueEntryPending e req L"

fun serve :: "env \<Rightarrow> (operation \<times> request) list \<Rightarrow> ledger \<Rightarrow> ledger" where
  "serve e [] L = L"
| "serve e ((op, req) # rest) L = serve e rest (store (handle e op req L))"

section \<open>The broadcaster\<close>

text \<open>
  \<^verbatim>\<open>io.emit(name, arg)\<close> sends one event to every connected client; \<open>clients\<close> is the
  list of the connected sockets. \<open>initializeSocket\<close> gives the events sent when a socket
  receives the message \<open>name\<close> with the argument \<open>data\<close>, in the order they are sent; a
  message with no handler sends nothing. The lines written to the console are left out.
\<close>

definition io_emit :: "'c list \<Rightarrow> string \<Rightarrow> 'd option \<Rightarrow> ('c \<times> string \<times> 'd option) list" where
  "io_emit clients name arg = map (\<lambda>c. (c, name, arg)) clients"

definition initializeSocket :: "'c list \<Rightarrow> string \<Rightarrow> 'd \<Rightarrow> ('c \<times> string \<times> 'd option) list" where
  "initializeSocket clients name data =
     (if name = ''book-appointment'' then io_emit clients ''patient-request'' (Some data)
      else if name = ''sendTicketToUser''
        then io_emit clients ''fetch-ticket'' None @ io_emit clients ''UserTicket'' (Some data)
      else if name = ''doctorFetchQueue'' then io_emit clients ''doctorFetchQueue'' None
      else if name = ''disconnect'' then []
      else if name = ''message'' then io_emit clients ''message'' (Some data)
      else [])"

text \<open>The events that reach one client, in order.\<close>

definition received :: "'c \<Rightarrow> ('c \<times> string \<times> 'd option) list \<Rightarrow> (string \<times> 'd option) list" where
  "received c sent = map snd (filter (\<lambda>m. fst m = c) sent)"

section \<open>Queues and their properties\<close>

text \<open>A queue is named by a doctor, an appointment date and a hospital; a row belongs to
  the queue whose three fields it carries.\<close>

record queue_key =
  k_doctorId :: int
  k_appointmentDate :: instant
  k_hospitalId :: jsval

definition in_queue :: "queue_key \<Rightarrow> queue_row \<Rightarrow> bool" where
  "in_queue k r \<longleftrightarrow>
     doctorId r = k_doctorId k \<and> appointmentDate r = k_appointmentDate k \<and>
     hospitalId r = k_hospitalId k"

text \<open>No two rows of one queue have the same position.\<close>

definition unique_positions :: "queue_row list \<Rightarrow> bool" where
  "unique_positions rows =
     distinct (map (\<lambda>r. (doctorId r, appointmentDate r, hospitalId r, position r)) rows)"

section \<open>An environment and a store for the examples\<close>

text \<open>
  One choice of the parameters, used where a statement is evaluated: a schema that asks
  for a string \<open>appointmentDate\<close> and a number \<open>hospitalId\<close>, a \<^verbatim>\<open>Number\<close> that reads the
  numerals \<open>0\<close> to \<open>9\<close> and gives \<open>NaN\<close> on the other strings, a date parser that knows
  one day, and a store whose client throws on a query that holds \<open>NaN\<close> and accepts the
  others.
\<close>

definition holdsNaN :: "where_clause \<Rightarrow> bool" where
  "holdsNaN w \<longleftrightarrow>
     w_doctorId w = NaN \<or> w_hospitalId w = JNumber NaN \<or> w_position w = Some NaN"

definition rejectsNaN :: "ledger_call \<Rightarrow> bool" where
  "rejectsNaN c =
     (case c of
        FindMany w \<Rightarrow> holdsNaN w
      | DeleteMany w \<Rightarrow> holdsNaN w
      | UpdateMany w \<Rightarrow> holdsNaN w
      | Create row \<Rightarrow> False)"

definition example_env :: env where
  "example_env =
     \<lparr>queueRequest = (\<lambda>b. (case getProp b ''appointmentDate'' of JStr _ \<Rightarrow> True | _ \<Rightarrow> False)
                            \<and> (case getProp b ''hospitalId'' of JNumber _ \<Rightarrow> True | _ \<Rightarrow> False)),
      stringToNumber = (\<lambda>s. case s of
                          [c] \<Rightarrow> (case List.find (\<lambda>(d, n). d = c)
                                          (zip ''0123456789'' [0, 1, 2, 3, 4, 5, 6, 7, 8, 9]) of
                                    None \<Rightarrow> NaN | Some (d, n) \<Rightarrow> Fin n)
                        | _ \<Rightarrow> NaN),
      dateToISOString = (\<lambda>v. if v = JStr ''2024-10-10'' then Some 1728518400000 else None),
      ledgerFails = rejectsNaN\<rparr>"

definition example_row :: "jsval \<Rightarrow> int \<Rightarrow> bool \<Rightarrow> int \<Rightarrow> queue_row" where
  "example_row h p b t =
     \<lparr>doctorId = 5, appointmentDate = 1728518400000, hospitalId = h, position = p,
      pending = b, ticketId = t\<rparr>"

definition example_request :: "jsval \<Rightarrow> jsval \<Rightarrow> jsval \<Rightarrow> request" where
  "example_request d p h =
     \<lparr>params = [(''doctorId'', d)],
      query = [(''doctorId'', d), (''position'', p)],
      body = [(''appointmentDate'', JStr ''2024-10-10''), (''hospitalId'', h)]\<rparr>"

definition example_future_request :: "jsval \<Rightarrow> request" where
  "example_future_request d =
     \<lparr>params = [], query = [],
      body = [(''doctorId'', JNumber (Fin 5)), (''patientId'', JNumber (Fin 42)),
              (''nextdate'', d), (''notes'', JStr ''review'')]\<rparr>"

definition example_ledger :: "jsval \<Rightarrow> ledger" where
  "example_ledger h =
     \<lparr>queue = [example_row h 2 False 12, (example_row h 0 False 13)\<lparr>doctorId := 6\<rparr>,
               example_row h 0 True 10, example_row h 1 False 11],
      ticket = [(10, [(''name'', JStr ''A'')]), (11, [(''name'', JStr ''B'')]),
                (12, [(''name'', JStr ''C'')]), (13, [(''name'', JStr ''D'')])],
      futureReference = []\<rparr>"

section \<open>Facts used throughout\<close>

lemmas handler_defs = getDoctorQueue_def getPatientQueuePosition_def getQueueTotal_def
  deleteQueueEntry_def createFutureAppointment_def markQueueEntryPending_def

lemmas example_defs = example_env_def rejectsNaN_def holdsNaN_def example_row_def
  example_request_def example_future_request_def example_ledger_def

section \<open>Conditions of a query and the queue they select\<close>

lemma matches_scope:
  assumes "h \<noteq> JUndefined"
  shows "matches \<lparr>w_doctorId = Fin d, w_appointmentDate = a, w_hospitalId = h,
                  w_position = None, w_pending = None\<rparr>
         = in_queue \<lparr>k_doctorId = d, k_appointmentDate = a, k_hospitalId = h\<rparr>"
  using assms by (auto simp: matches_def in_queue_def fun_eq_iff)

lemma matches_scope_position:
  assumes "h \<noteq> JUndefined"
  shows "matches \<lparr>w_doctorId = Fin d, w_appointmentDate = a, w_hospitalId = h,
                  w_position = Some (Fin p), w_pending = None\<rparr>
         = (\<lambda>r. in_queue \<lparr>k_doctorId = d, k_appointmentDate = a, k_hospitalId = h\<rparr> r \<and> position r = p)"
  using assms by (auto simp: matches_def in_queue_def fun_eq_iff)

lemma matches_scope_waiting:
  assumes "h \<noteq> JUndefined"
  shows "matches \<lparr>w_doctorId = Fin d, w_appointmentDate = a, w_hospitalId = h,
                  w_position = None, w_pending = Some False\<rparr>
         = (\<lambda>r. in_queue \<lparr>k_doctorId = d, k_appointmentDate = a, k_hospitalId = h\<rparr> r \<and> \<not> pending r)"
  using assms by (auto simp: matches_def in_queue_def fun_eq_iff)

lemma handle_queue_cases:
  "queue (store (handle e op req L)) = queue L \<or>
   (\<exists>w. queue (store (handle e op req L)) = deleteMany w (queue L)) \<or>
   (\<exists>w. queue (store (handle e op req L)) = updateMany w (queue L))"
  by (cases op) (auto simp: handler_defs reply_def Let_def split: option.split)

lemma handle_advances:
  "\<exists>keep mark. queue (store (handle e op req L))
       = map (\<lambda>r. if mark r then r\<lparr>pending := True\<rparr> else r) (filter keep (queue L))"
proof -
  consider "queue (store (handle e op req L)) = queue L"
    | w where "queue (store (handle e op req L)) = deleteMany w (queue L)"
    | w where "queue (store (handle e op req L)) = updateMany w (queue L)"
    using handle_queue_cases [of e op req L] by blast
  then show ?thesis
  proof cases
    case 1
    then show ?thesis
      by (intro exI [of _ "\<lambda>_. True"] exI [of _ "\<lambda>_. False"]) simp
  next
    case 2
    then show ?thesis
      by (intro exI [of _ "\<lambda>r. \<not> matches w r"] exI [of _ "\<lambda>_. False"]) (simp add: deleteMany_def)
  next
    case 3
    then show ?thesis
      by (intro exI [of _ "\<lambda>_. True"] exI [of _ "matches w"]) (simp add: updateMany_def)
  qed
qed

lemma advances_trans:
  assumes "mid = map (\<lambda>r. if m1 r then r\<lparr>pending := True\<rparr> else r) (filter k1 old)"
    and "new = map (\<lambda>r. if m2 r then r\<lparr>pending := True\<rparr> else r) (filter k2 mid)"
  shows "\<exists>keep mark. new = map (\<lambda>r::queue_row. if mark r then r\<lparr>pending := True\<rparr> else r) (filter keep old)"
proof -
  let ?f1 = "\<lambda>r::queue_row. if m1 r then r\<lparr>pending := True\<rparr> else r"
  let ?f2 = "\<lambda>r::queue_row. if m2 r then r\<lparr>pending := True\<rparr> else r"
  have "filter k2 mid = map ?f1 (filter (\<lambda>r. k1 r \<and> k2 (?f1 r)) old)"
    unfolding assms(1) by (simp add: filter_map o_def conj_commute)
  then have "new = map (?f2 \<circ> ?f1) (filter (\<lambda>r. k1 r \<and> k2 (?f1 r)) old)"
    unfolding assms(2) by simp
  also have "?f2 \<circ> ?f1 = (\<lambda>r. if m1 r \<or> m2 (?f1 r) then r\<lparr>pending := True\<rparr> else r)"
    by (auto simp: fun_eq_iff)
  finally show ?thesis
    by (intro exI [of _ "\<lambda>r. k1 r \<and> k2 (?f1 r)"] exI [of _ "\<lambda>r. m1 r \<or> m2 (?f1 r)"])
qed

lemma serve_advances:
  "\<exists>keep mark. queue (serve e reqs L)
       = map (\<lambda>r. if mark r then r\<lparr>pending := True\<rparr> else r) (filter keep (queue L))"
proof (induction reqs arbitrary: L)
  case Nil
  show ?case
    by (intro exI [of _ "\<lambda>_. True"] exI [of _ "\<lambda>_. False"]) simp
next
  case (Cons x reqs)
  obtain op req where x: "x = (op, req)" by (cases x)
  obtain k1 m1 where first: "queue (store (handle e op req L))
       = map (\<lambda>r. if m1 r then r\<lparr>pending := True\<rparr> else r) (filter k1 (queue L))"
    using handle_advances by blast
  obtain k2 m2 where rest: "queue (serve e reqs (store (handle e op req L)))
       = map (\<lambda>r. if m2 r then r\<lparr>pending := True\<rparr> else r)
           (filter k2 (queue (store (handle e op req L))))"
    using Cons.IH by blast
  show ?case
    unfolding x serve.simps by (rule advances_trans [OF first rest])
qed


section \<open>Marking an entry as pending\<close>

text \<open>
  \<open>markQueueEntryPending\<close> filters on \<^verbatim>\<open>Number(hospitalId)\<close>, the other handlers on
  \<open>hospitalId\<close> as the body has it. The two agree when \<open>hospitalId\<close> is a number, which is
  what the coercion takes it to be; a row whose \<open>hospitalId\<close> is a string is never marked.
  The statements about marking are made for a numeric \<open>hospitalId\<close>.
\<close>

lemma markQueueEntryPending_skips_string_hospitalId:
  assumes "r \<in> set (queue L)" and "hospitalId r = JStr s"
  shows "r \<in> set (queue (store (markQueueEntryPending e req L)))"
proof -
  have "\<not> matches w r" if "w_hospitalId w = JNumber n" for w n
    using that assms(2) by (simp add: matches_def)
  then show ?thesis
    using assms(1)
    by (auto simp: markQueueEntryPending_def reply_def Let_def updateMany_def image_iff
             split: option.split)
qed





section \<open>The position being served\<close>

lemma first_sorted_Min:
  assumes "sorted xs"
  shows "(case xs of [] \<Rightarrow> None | p # _ \<Rightarrow> Some p) = (if set xs = {} then None else Some (Min (set xs)))"
proof (cases xs)
  case Nil
  then show ?thesis by simp
next
  case (Cons y ys)
  have "Min (set xs) = y"
    using assms unfolding Cons by (intro Min_eqI) auto
  then show ?thesis by (simp add: Cons)
qed

text \<open>
  C2. For the queue \<open>k\<close> that a request names, \<open>getPatientQueuePosition\<close> answers with the
  smallest position among the entries of \<open>k\<close> that are not pending, and with nothing when
  \<open>k\<close> has no such entry. The request names \<open>k\<close> by a \<open>doctorId\<close> in the query that
  \<^verbatim>\<open>Number\<close> reads as \<open>d\<close>, a date that parses to \<open>a\<close> and a \<open>hospitalId\<close> \<open>h\<close>; the
  body passes the schema and the store accepts the query.
\<close>

theorem getPatientQueuePosition_smallest_waiting:
  fixes e req L d a h
  defines "out \<equiv> getPatientQueuePosition e req L"
  defines "k \<equiv> \<lparr>k_doctorId = d, k_appointmentDate = a, k_hospitalId = h\<rparr>"
  defines "waiting \<equiv> map position (filter (\<lambda>r. in_queue k r \<and> \<not> pending r) (queue L))"
  assumes valid: "queueRequest e (body req)"
    and doctor: "Number_js e (getProp (query req) ''doctorId'') = Fin d"
    and date: "dateToISOString e (getProp (body req) ''appointmentDate'') = Some a"
    and hospital: "getProp (body req) ''hospitalId'' = h" "h \<noteq> JUndefined"
    and accepted: "\<not> ledgerFails e (FindMany \<lparr>w_doctorId = Fin d, w_appointmentDate = a,
                     w_hospitalId = h, w_position = None, w_pending = Some False\<rparr>)"
  shows "response out =
           \<lparr>status = 200,
            json = Position (if waiting = [] then None else Some (Min (set waiting)))\<rparr>"
proof -
  let ?w = "\<lparr>w_doctorId = Fin d, w_appointmentDate = a, w_hospitalId = h,
             w_position = None, w_pending = Some False\<rparr>"
  let ?order = "map position (orderByPosition (findMany ?w (queue L)))"
  have found: "findMany ?w (queue L) = filter (\<lambda>r. in_queue k r \<and> \<not> pending r) (queue L)"
    unfolding findMany_def k_def using matches_scope_waiting [OF hospital(2)] by simp
  have "sorted ?order"
    by (simp add: orderByPosition_def)
  moreover have "set ?order = set waiting"
    by (simp add: orderByPosition_def found waiting_def)
  ultimately have "(case ?order of [] \<Rightarrow> None | p # _ \<Rightarrow> Some p)
                   = (if waiting = [] then None else Some (Min (set waiting)))"
    using first_sorted_Min [of ?order] by simp
  then show ?thesis
    using valid doctor date hospital accepted
    by (simp add: out_def getPatientQueuePosition_def reply_def)
qed

theorem getPatientQueuePosition_smallest_waiting_witness:
  "queueRequest example_env (body (example_request (JStr ''5'') JUndefined (JNumber (Fin 1)))) \<and>
   Number_js example_env
     (getProp (query (example_request (JStr ''5'') JUndefined (JNumber (Fin 1)))) ''doctorId'') = Fin 5 \<and>
   dateToISOString example_env
     (getProp (body (example_request (JStr ''5'') JUndefined (JNumber (Fin 1)))) ''appointmentDate'')
     = Some 1728518400000 \<and>
   getProp (body (example_request (JStr ''5'') JUndefined (JNumber (Fin 1)))) ''hospitalId''
     = JNumber (Fin 1) \<and>
   response (getPatientQueuePosition example_env
               (example_request (JStr ''5'') JUndefined (JNumber (Fin 1)))
               (example_ledger (JNumber (Fin 1))))
     = \<lparr>status = 200, json = Position (Some 1)\<rparr>"
  using getPatientQueuePosition_smallest_waiting
          [of example_env "example_request (JStr ''5'') JUndefined (JNumber (Fin 1))"
              5 1728518400000 "JNumber (Fin 1)" "example_ledger (JNumber (Fin 1))"]
  by (simp add: example_defs getProp_def Number_js_def in_queue_def)


section \<open>Listing a queue\<close>

lemma getDoctorQueue_store: "store (getDoctorQueue e req L) = L"
  by (simp add: getDoctorQueue_def reply_def Let_def split: option.split)

text \<open>
  C3. \<open>getDoctorQueue\<close> never changes the store. When the body passes the schema and the
  store accepts the query, it answers with exactly the entries of the queue \<open>k\<close> that the
  request names (each as often as the table holds it), in ascending order of position,
  each paired with the ticket its \<open>ticketId\<close> refers to.
\<close>

theorem getDoctorQueue_lists_queue:
  fixes e req L d a h
  defines "out \<equiv> getDoctorQueue e req L"
  defines "k \<equiv> \<lparr>k_doctorId = d, k_appointmentDate = a, k_hospitalId = h\<rparr>"
  defines "rows \<equiv> sort_key position (filter (in_queue k) (queue L))"
  assumes doctor: "Number_js e (getProp (params req) ''doctorId'') = Fin d"
    and date: "dateToISOString e (getProp (body req) ''appointmentDate'') = Some a"
    and hospital: "getProp (body req) ''hospitalId'' = h" "h \<noteq> JUndefined"
  shows "store out = L \<and>
         mset rows = filter_mset (in_queue k) (mset (queue L)) \<and>
         sorted (map position rows) \<and>
         (queueRequest e (body req) \<and>
          \<not> ledgerFails e (FindMany \<lparr>w_doctorId = Fin d, w_appointmentDate = a,
                 w_hospitalId = h, w_position = None, w_pending = None\<rparr>) \<longrightarrow>
            response out = \<lparr>status = 200,
               json = Queues (map (\<lambda>r. (r, map_of (ticket L) (ticketId r))) rows)\<rparr>)"
proof -
  have "findMany \<lparr>w_doctorId = Fin d, w_appointmentDate = a, w_hospitalId = h,
                   w_position = None, w_pending = None\<rparr> (queue L) = filter (in_queue k) (queue L)"
    unfolding findMany_def k_def using matches_scope [OF hospital(2)] by simp
  then have "response out = \<lparr>status = 200,
                json = Queues (map (\<lambda>r. (r, map_of (ticket L) (ticketId r))) rows)\<rparr>"
    if "queueRequest e (body req)"
      and "\<not> ledgerFails e (FindMany \<lparr>w_doctorId = Fin d, w_appointmentDate = a,
                 w_hospitalId = h, w_position = None, w_pending = None\<rparr>)"
    using that doctor date hospital
    by (simp add: out_def rows_def getDoctorQueue_def reply_def includeTicket_def orderByPosition_def)
  moreover have "store out = L"
    by (simp add: out_def getDoctorQueue_store)
  moreover have "mset rows = filter_mset (in_queue k) (mset (queue L))"
    by (simp add: rows_def)
  moreover have "sorted (map position rows)"
    by (simp add: rows_def)
  ultimately show ?thesis by blast
qed

theorem getDoctorQueue_lists_queue_witness:
  "Number_js example_env
     (getProp (params (example_request (JStr ''5'') JUndefined (JNumber (Fin 1)))) ''doctorId'') = Fin 5 \<and>
   dateToISOString example_env
     (getProp (body (example_request (JStr ''5'') JUndefined (JNumber (Fin 1)))) ''appointmentDate'')
     = Some 1728518400000 \<and>
   getProp (body (example_request (JStr ''5'') JUndefined (JNumber (Fin 1)))) ''hospitalId''
     = JNumber (Fin 1) \<and>
   queueRequest example_env (body (example_request (JStr ''5'') JUndefined (JNumber (Fin 1)))) \<and>
   response (getDoctorQueue example_env (example_request (JStr ''5'') JUndefined (JNumber (Fin 1)))
               (example_ledger (JNumber (Fin 1))))
     = \<lparr>status = 200,
        json = Queues [(example_row (JNumber (Fin 1)) 0 True 10, Some [(''name'', JStr ''A'')]),
                       (example_row (JNumber (Fin 1)) 1 False 11, Some [(''name'', JStr ''B'')]),
                       (example_row (JNumber (Fin 1)) 2 False 12, Some [(''name'', JStr ''C'')])]\<rparr>"
  using getDoctorQueue_lists_queue
          [of example_env "example_request (JStr ''5'') JUndefined (JNumber (Fin 1))"
              5 1728518400000 "JNumber (Fin 1)" "example_ledger (JNumber (Fin 1))"]
  by (simp add: example_defs getProp_def Number_js_def in_queue_def)

section \<open>Positions stay unique\<close>

lemma unique_positions_deleteMany:
  "unique_positions rows \<Longrightarrow> unique_positions (deleteMany w rows)"
  unfolding unique_positions_def deleteMany_def by (rule distinct_map_filter)

lemma unique_positions_updateMany:
  "unique_positions (updateMany w rows) = unique_positions rows"
proof -
  have "map (\<lambda>r. (doctorId r, appointmentDate r, hospitalId r, position r)) (updateMany w rows)
        = map (\<lambda>r. (doctorId r, appointmentDate r, hospitalId r, position r)) rows"
    by (simp add: updateMany_def)
  then show ?thesis by (simp add: unique_positions_def)
qed

lemma unique_positions_handle:
  assumes "unique_positions (queue L)"
  shows "unique_positions (queue (store (handle e op req L)))"
  using handle_queue_cases [of e op req L] assms
  by (auto simp: unique_positions_deleteMany unique_positions_updateMany)

text \<open>
  C4. If no two entries of one queue share a position, then after any list of requests,
  served by any of the handlers, still no two entries of one queue share a position.
\<close>

theorem unique_positions_invariant:
  assumes "unique_positions (queue L)"
  shows "unique_positions (queue (serve e reqs L))"
  using assms
proof (induction reqs arbitrary: L)
  case Nil
  then show ?case by simp
next
  case (Cons x reqs)
  obtain op req where x: "x = (op, req)" by (cases x)
  from Cons.prems have "unique_positions (queue (store (handle e op req L)))"
    by (rule unique_positions_handle)
  then show ?case
    unfolding x by (simp add: Cons.IH)
qed


theorem unique_positions_invariant_witness:
  "unique_positions (queue (example_ledger (JNumber (Fin 1)))) \<and>
   unique_positions (queue (serve example_env
      [(DeleteQueueEntry, example_request (JStr ''5'') (JStr ''1'') (JNumber (Fin 1))),
       (MarkQueueEntryPending, example_request (JStr ''5'') (JStr ''2'') (JNumber (Fin 1))),
       (GetDoctorQueue, example_request (JStr ''5'') JUndefined (JNumber (Fin 1)))]
      (example_ledger (JNumber (Fin 1)))))"
proof -
  have start: "unique_positions (queue (example_ledger (JNumber (Fin 1))))"
    by (simp add: unique_positions_def example_defs)
  show ?thesis
    by (rule conjI [OF start unique_positions_invariant [OF start]])
qed

section \<open>Pending is never taken back\<close>

lemma updateMany_marks:
  assumes "r \<in> set (updateMany w rows)" and "matches w r"
  shows "pending r"
proof -
  obtain r0 where "r0 \<in> set rows" and r: "r = (if matches w r0 then r0\<lparr>pending := True\<rparr> else r0)"
    using assms(1) by (auto simp: updateMany_def)
  show ?thesis
  proof (cases "matches w r0")
    case True
    then show ?thesis using r by simp
  next
    case False
    then have "r = r0" using r by simp
    with False assms(2) show ?thesis by simp
  qed
qed

text \<open>
  C5. After any list of requests the table of entries is the old table with some rows
  removed and, on some of the rows that remain, \<open>pending\<close> set; no row changes in any other
  way, so a row that was pending stays pending for as long as it exists. Hence, once
  \<open>markQueueEntryPending\<close> has answered with success for the queue \<open>k\<close> that the request
  names (its \<open>hospitalId\<close> as the body has it) and a position \<open>p\<close>, every entry of \<open>k\<close> at
  \<open>p\<close> is pending in every later state. This second part is for hospital identifiers that
  are numbers: the one of the request, or the ones the table holds.
\<close>

theorem pending_monotonic:
  fixes e req reqs L d a h p
  defines "marked \<equiv> markQueueEntryPending e req L"
  shows "(\<exists>keep mark. queue (serve e reqs L)
            = map (\<lambda>r. if mark r then r\<lparr>pending := True\<rparr> else r) (filter keep (queue L))) \<and>
         (status (response marked) = 200 \<and>
          Number_js e (getProp (query req) ''doctorId'') = Fin d \<and>
          dateToISOString e (getProp (body req) ''appointmentDate'') = Some a \<and>
          getProp (body req) ''hospitalId'' = h \<and>
          Number_js e (getProp (query req) ''position'') = Fin p \<and>
          ((\<exists>n. h = JNumber n) \<or> (\<forall>r \<in> set (queue L). \<exists>n. hospitalId r = JNumber n))
          \<longrightarrow> (\<forall>r \<in> set (queue (serve e reqs (store marked))).
                  in_queue \<lparr>k_doctorId = d, k_appointmentDate = a, k_hospitalId = h\<rparr> r \<and>
                  position r = p \<longrightarrow> pending r))"
proof (intro conjI impI ballI)
  show "\<exists>keep mark. queue (serve e reqs L)
            = map (\<lambda>r. if mark r then r\<lparr>pending := True\<rparr> else r) (filter keep (queue L))"
    by (rule serve_advances)
next
  fix r
  let ?k = "\<lparr>k_doctorId = d, k_appointmentDate = a, k_hospitalId = h\<rparr>"
  let ?w = "\<lparr>w_doctorId = Fin d, w_appointmentDate = a,
             w_hospitalId = JNumber (Number_js e h),
             w_position = Some (Fin p), w_pending = None\<rparr>"
  assume ok: "status (response marked) = 200 \<and>
          Number_js e (getProp (query req) ''doctorId'') = Fin d \<and>
          dateToISOString e (getProp (body req) ''appointmentDate'') = Some a \<and>
          getProp (body req) ''hospitalId'' = h \<and>
          Number_js e (getProp (query req) ''position'') = Fin p \<and>
          ((\<exists>n. h = JNumber n) \<or> (\<forall>r \<in> set (queue L). \<exists>n. hospitalId r = JNumber n))"
    and r: "r \<in> set (queue (serve e reqs (store marked)))"
    and at: "in_queue ?k r \<and> position r = p"
  from ok have success: "status (response marked) = 200"
    and doctor: "Number_js e (getProp (query req) ''doctorId'') = Fin d"
    and date: "dateToISOString e (getProp (body req) ''appointmentDate'') = Some a"
    and hospital: "getProp (body req) ''hospitalId'' = h"
    and pos: "Number_js e (getProp (query req) ''position'') = Fin p"
    and numeric: "(\<exists>n. h = JNumber n) \<or> (\<forall>r \<in> set (queue L). \<exists>n. hospitalId r = JNumber n)"
    by simp_all
  have first: "queue (store marked) = updateMany ?w (queue L)"
    using success unfolding marked_def
    by (simp add: markQueueEntryPending_def reply_def Let_def doctor date hospital pos
          split: if_splits)
  obtain keep mark where later: "queue (serve e reqs (store marked))
       = map (\<lambda>r. if mark r then r\<lparr>pending := True\<rparr> else r) (filter keep (queue (store marked)))"
    using serve_advances by blast
  from r obtain r0 where r0: "r0 \<in> set (queue (store marked))"
    and r_def: "r = (if mark r0 then r0\<lparr>pending := True\<rparr> else r0)"
    unfolding later by auto
  have scope: "doctorId r0 = d" "appointmentDate r0 = a" "hospitalId r0 = h" "position r0 = p"
    using at unfolding r_def by (auto simp: in_queue_def split: if_splits)
  from r0 obtain r1 where r1: "r1 \<in> set (queue L)" and same: "hospitalId r0 = hospitalId r1"
    unfolding first by (auto simp: updateMany_def)
  have "\<exists>n. h = JNumber n"
    using numeric r1 same scope(3) by auto
  then have "JNumber (Number_js e h) = h"
    by (auto simp: Number_js_def)
  then have "matches ?w r0"
    using scope by (simp add: matches_def)
  with r0 have "pending r0"
    unfolding first by (rule updateMany_marks)
  then show "pending r"
    unfolding r_def by simp
qed

theorem pending_monotonic_witness:
  "status (response (markQueueEntryPending example_env
                       (example_request (JStr ''5'') (JStr ''2'') (JNumber (Fin 1)))
                       (example_ledger (JNumber (Fin 1))))) = 200 \<and>
   getProp (body (example_request (JStr ''5'') (JStr ''2'') (JNumber (Fin 1)))) ''hospitalId''
     = JNumber (Fin 1) \<and>
   Number_js example_env
     (getProp (query (example_request (JStr ''5'') (JStr ''2'') (JNumber (Fin 1)))) ''position'') = Fin 2 \<and>
   queue (serve example_env
            [(DeleteQueueEntry, example_request (JStr ''5'') (JStr ''1'') (JNumber (Fin 1))),
             (GetPatientQueuePosition, example_request (JStr ''5'') JUndefined (JNumber (Fin 1)))]
            (store (markQueueEntryPending example_env
                      (example_request (JStr ''5'') (JStr ''2'') (JNumber (Fin 1)))
                      (example_ledger (JNumber (Fin 1))))))
     = [example_row (JNumber (Fin 1)) 2 True 12,
        (example_row (JNumber (Fin 1)) 0 False 13)\<lparr>doctorId := 6\<rparr>,
        example_row (JNumber (Fin 1)) 0 True 10]"
  using pending_monotonic
          [of example_env
              "[(DeleteQueueEntry, example_request (JStr ''5'') (JStr ''1'') (JNumber (Fin 1))),
                (GetPatientQueuePosition, example_request (JStr ''5'') JUndefined (JNumber (Fin 1)))]"
              "example_ledger (JNumber (Fin 1))"
              "example_request (JStr ''5'') (JStr ''2'') (JNumber (Fin 1))"
              5 1728518400000 "JNumber (Fin 1)" 2]
  by (simp add: getPatientQueuePosition_def deleteQueueEntry_def markQueueEntryPending_def
        reply_def Let_def example_defs getProp_def Number_js_def
        updateMany_def deleteMany_def matches_def)

section \<open>Removing an entry\<close>

lemma deleteMany_idem: "deleteMany w (deleteMany w rows) = deleteMany w rows"
  by (simp add: deleteMany_def)

lemma deleteMany_none: "\<forall>r \<in> set rows. \<not> matches w r \<Longrightarrow> deleteMany w rows = rows"
  by (simp add: deleteMany_def)

text \<open>
  C6. Serving the same \<open>deleteQueueEntry\<close> request twice in a row leaves the store that
  serving it once leaves, and the second response is the first. A request for a position
  that no entry of its queue has is answered with success and leaves the store as it was.
\<close>

theorem deleteQueueEntry_idempotent:
  fixes e req L d a h p
  defines "once \<equiv> deleteQueueEntry e req L"
  defines "twice \<equiv> deleteQueueEntry e req (store once)"
  defines "k \<equiv> \<lparr>k_doctorId = d, k_appointmentDate = a, k_hospitalId = h\<rparr>"
  shows "store twice = store once \<and> response twice = response once \<and>
         (queueRequest e (body req) \<and>
          Number_js e (getProp (query req) ''doctorId'') = Fin d \<and>
          dateToISOString e (getProp (body req) ''appointmentDate'') = Some a \<and>
          getProp (body req) ''hospitalId'' = h \<and> h \<noteq> JUndefined \<and>
          Number_js e (getProp (query req) ''position'') = Fin p \<and>
          \<not> ledgerFails e (DeleteMany \<lparr>w_doctorId = Fin d, w_appointmentDate = a,
                 w_hospitalId = h, w_position = Some (Fin p), w_pending = None\<rparr>) \<and>
          (\<forall>r \<in> set (queue L). \<not> (in_queue k r \<and> position r = p))
          \<longrightarrow> response once = \<lparr>status = 200, json = Message ''Queue deleted successfully''\<rparr> \<and>
              store once = L)"
proof -
  have "store twice = store once"
    unfolding once_def twice_def
    by (simp add: deleteQueueEntry_def reply_def Let_def deleteMany_idem split: option.split)
  moreover have "response twice = response once"
    unfolding once_def twice_def
    by (simp add: deleteQueueEntry_def reply_def Let_def split: option.split)
  moreover have "response once = \<lparr>status = 200, json = Message ''Queue deleted successfully''\<rparr> \<and>
              store once = L"
    if "queueRequest e (body req)"
      and "Number_js e (getProp (query req) ''doctorId'') = Fin d"
      and "dateToISOString e (getProp (body req) ''appointmentDate'') = Some a"
      and "getProp (body req) ''hospitalId'' = h" and "h \<noteq> JUndefined"
      and "Number_js e (getProp (query req) ''position'') = Fin p"
      and "\<not> ledgerFails e (DeleteMany \<lparr>w_doctorId = Fin d, w_appointmentDate = a,
                 w_hospitalId = h, w_position = Some (Fin p), w_pending = None\<rparr>)"
      and "\<forall>r \<in> set (queue L). \<not> (in_queue k r \<and> position r = p)"
  proof -
    have "deleteMany \<lparr>w_doctorId = Fin d, w_appointmentDate = a,
                 w_hospitalId = h, w_position = Some (Fin p), w_pending = None\<rparr> (queue L) = queue L"
      using that(5,8) by (intro deleteMany_none) (simp add: matches_scope_position k_def)
    then show ?thesis
      using that unfolding once_def by (simp add: deleteQueueEntry_def reply_def)
  qed
  ultimately show ?thesis by blast
qed

theorem deleteQueueEntry_idempotent_witness:
  "queue (store (deleteQueueEntry example_env
                   (example_request (JStr ''5'') (JStr ''1'') (JNumber (Fin 1)))
                   (store (deleteQueueEntry example_env
                      (example_request (JStr ''5'') (JStr ''1'') (JNumber (Fin 1)))
                      (example_ledger (JNumber (Fin 1)))))))
     = [example_row (JNumber (Fin 1)) 2 False 12,
        (example_row (JNumber (Fin 1)) 0 False 13)\<lparr>doctorId := 6\<rparr>,
        example_row (JNumber (Fin 1)) 0 True 10] \<and>
   queueRequest example_env (body (example_request (JStr ''5'') (JStr ''7'') (JNumber (Fin 1)))) \<and>
   Number_js example_env
     (getProp (query (example_request (JStr ''5'') (JStr ''7'') (JNumber (Fin 1)))) ''position'') = Fin 7 \<and>
   response (deleteQueueEntry example_env
               (example_request (JStr ''5'') (JStr ''7'') (JNumber (Fin 1)))
               (example_ledger (JNumber (Fin 1))))
     = \<lparr>status = 200, json = Message ''Queue deleted successfully''\<rparr> \<and>
   store (deleteQueueEntry example_env
               (example_request (JStr ''5'') (JStr ''7'') (JNumber (Fin 1)))
               (example_ledger (JNumber (Fin 1))))
     = example_ledger (JNumber (Fin 1))"
proof -
  have once: "queue (store (deleteQueueEntry example_env
                   (example_request (JStr ''5'') (JStr ''1'') (JNumber (Fin 1)))
                   (example_ledger (JNumber (Fin 1)))))
     = [example_row (JNumber (Fin 1)) 2 False 12,
        (example_row (JNumber (Fin 1)) 0 False 13)\<lparr>doctorId := 6\<rparr>,
        example_row (JNumber (Fin 1)) 0 True 10]"
    by (simp add: deleteQueueEntry_def reply_def Let_def example_defs getProp_def Number_js_def
          deleteMany_def matches_def)
  have absent: "\<forall>r \<in> set (queue (example_ledger (JNumber (Fin 1)))).
          \<not> (in_queue \<lparr>k_doctorId = 5, k_appointmentDate = 1728518400000,
                        k_hospitalId = JNumber (Fin 1)\<rparr> r \<and> position r = 7)"
    by (simp add: example_defs)
  show ?thesis
    using once absent
      deleteQueueEntry_idempotent
        [of example_env "example_request (JStr ''5'') (JStr ''1'') (JNumber (Fin 1))"
            "example_ledger (JNumber (Fin 1))" 5 1728518400000 "JNumber (Fin 1)" 1]
      deleteQueueEntry_idempotent
        [of example_env "example_request (JStr ''5'') (JStr ''7'') (JNumber (Fin 1))"
            "example_ledger (JNumber (Fin 1))" 5 1728518400000 "JNumber (Fin 1)" 7]
    by (simp add: example_env_def rejectsNaN_def holdsNaN_def example_request_def getProp_def
          Number_js_def)
qed

text \<open>
  C7. \<open>deleteQueueEntry\<close> for position \<open>p\<close> of the queue \<open>k\<close> removes the entries of \<open>k\<close>
  at \<open>p\<close> and nothing else: when it answers with success the table is the old table
  without them, every other row as it was and where it was (no position is renumbered,
  no \<open>pending\<close> flag touched, the rows of the other queues kept); otherwise the table is
  unchanged. Tickets and future references are never touched.
\<close>

theorem deleteQueueEntry_frame:
  fixes e req L d a h p
  defines "out \<equiv> deleteQueueEntry e req L"
  defines "k \<equiv> \<lparr>k_doctorId = d, k_appointmentDate = a, k_hospitalId = h\<rparr>"
  assumes doctor: "Number_js e (getProp (query req) ''doctorId'') = Fin d"
    and date: "dateToISOString e (getProp (body req) ''appointmentDate'') = Some a"
    and hospital: "getProp (body req) ''hospitalId'' = h" "h \<noteq> JUndefined"
    and pos: "Number_js e (getProp (query req) ''position'') = Fin p"
  shows "queue (store out) =
           (if status (response out) = 200
            then filter (\<lambda>r. \<not> (in_queue k r \<and> position r = p)) (queue L)
            else queue L) \<and>
         ticket (store out) = ticket L \<and>
         futureReference (store out) = futureReference L \<and>
         (queueRequest e (body req) \<and>
          \<not> ledgerFails e (DeleteMany \<lparr>w_doctorId = Fin d, w_appointmentDate = a,
                 w_hospitalId = h, w_position = Some (Fin p), w_pending = None\<rparr>)
          \<longrightarrow> status (response out) = 200)"
  using assms(3-)
  unfolding out_def k_def
  by (simp add: deleteQueueEntry_def reply_def deleteMany_def matches_scope_position Let_def)

theorem deleteQueueEntry_frame_witness:
  "Number_js example_env
     (getProp (query (example_request (JStr ''5'') (JStr ''1'') (JNumber (Fin 1)))) ''doctorId'') = Fin 5 \<and>
   dateToISOString example_env
     (getProp (body (example_request (JStr ''5'') (JStr ''1'') (JNumber (Fin 1)))) ''appointmentDate'')
     = Some 1728518400000 \<and>
   getProp (body (example_request (JStr ''5'') (JStr ''1'') (JNumber (Fin 1)))) ''hospitalId''
     = JNumber (Fin 1) \<and>
   Number_js example_env
     (getProp (query (example_request (JStr ''5'') (JStr ''1'') (JNumber (Fin 1)))) ''position'') = Fin 1 \<and>
   status (response (deleteQueueEntry example_env
                       (example_request (JStr ''5'') (JStr ''1'') (JNumber (Fin 1)))
                       (example_ledger (JNumber (Fin 1))))) = 200 \<and>
   queue (store (deleteQueueEntry example_env
                   (example_request (JStr ''5'') (JStr ''1'') (JNumber (Fin 1)))
                   (example_ledger (JNumber (Fin 1)))))
     = [example_row (JNumber (Fin 1)) 2 False 12,
        (example_row (JNumber (Fin 1)) 0 False 13)\<lparr>doctorId := 6\<rparr>,
        example_row (JNumber (Fin 1)) 0 True 10]"
  using deleteQueueEntry_frame
          [of example_env "example_request (JStr ''5'') (JStr ''1'') (JNumber (Fin 1))"
              5 1728518400000 "JNumber (Fin 1)" 1 "example_ledger (JNumber (Fin 1))"]
  by (simp add: example_defs getProp_def Number_js_def in_queue_def deleteQueueEntry_def
        reply_def Let_def deleteMany_def matches_def)

section \<open>What the schema check covers\<close>

text \<open>
  C8, as stated, fails: a request with no \<open>doctorId\<close> and no \<open>position\<close> in its query, and
  a body that passes the schema, is not rejected as invalid. \<open>deleteQueueEntry\<close> calls the
  store with \<open>NaN\<close> for both; the answer is 500 where the store throws on that call and 200
  where it does not, whatever the store and whatever \<^verbatim>\<open>Number\<close> makes of strings, and
  never 400.
\<close>

theorem validation_counterexample:
  "getProp (query \<lparr>params = [], query = [],
                   body = [(''appointmentDate'', JStr ''2024-10-10''),
                           (''hospitalId'', JNumber (Fin 1))]\<rparr>) ''doctorId'' = JUndefined \<and>
   getProp (query \<lparr>params = [], query = [],
                   body = [(''appointmentDate'', JStr ''2024-10-10''),
                           (''hospitalId'', JNumber (Fin 1))]\<rparr>) ''position'' = JUndefined \<and>
   (\<forall>fails num.
      calls (deleteQueueEntry (example_env\<lparr>stringToNumber := num, ledgerFails := fails\<rparr>)
               \<lparr>params = [], query = [],
                body = [(''appointmentDate'', JStr ''2024-10-10''),
                        (''hospitalId'', JNumber (Fin 1))]\<rparr>
               (example_ledger (JNumber (Fin 1))))
        = [DeleteMany \<lparr>w_doctorId = NaN, w_appointmentDate = 1728518400000,
                        w_hospitalId = JNumber (Fin 1), w_position = Some NaN, w_pending = None\<rparr>] \<and>
      status (response (deleteQueueEntry (example_env\<lparr>stringToNumber := num, ledgerFails := fails\<rparr>)
               \<lparr>params = [], query = [],
                body = [(''appointmentDate'', JStr ''2024-10-10''),
                        (''hospitalId'', JNumber (Fin 1))]\<rparr>
               (example_ledger (JNumber (Fin 1)))))
        = (if fails (DeleteMany \<lparr>w_doctorId = NaN, w_appointmentDate = 1728518400000,
                        w_hospitalId = JNumber (Fin 1), w_position = Some NaN, w_pending = None\<rparr>)
           then 500 else 200))"
  by (simp add: deleteQueueEntry_def reply_def Let_def example_env_def getProp_def Number_js_def)

text \<open>
  C8, amended. The five handlers of a queue check the body of the request, and only the
  body. A request whose body fails the schema is answered with 400 and the message
  \<open>Invalid request\<close>, before any call to the store and with the store unchanged. A request
  whose body passes is never answered with 400, whatever its route and its query hold:
  when its date parses the handler makes its one call to the store, with
  \<^verbatim>\<open>Number(doctorId)\<close> and \<^verbatim>\<open>Number(position)\<close> as they come out, which is \<open>NaN\<close> for a
  field that is missing.
\<close>

theorem validation_checks_body_only:
  fixes e op req L
  defines "out \<equiv> handle e op req L"
  defines "route \<equiv> (if op = GetDoctorQueue then params req else query req)"
  assumes "op \<noteq> CreateFutureAppointment"
  shows "(\<not> queueRequest e (body req) \<longrightarrow>
            out = reply L [] 400 (Message ''Invalid request'')) \<and>
         (queueRequest e (body req) \<longrightarrow> status (response out) \<noteq> 400) \<and>
         (\<forall>a. queueRequest e (body req) \<and>
              dateToISOString e (getProp (body req) ''appointmentDate'') = Some a \<longrightarrow>
              (\<exists>w. (calls out = [FindMany w] \<or> calls out = [DeleteMany w] \<or>
                     calls out = [UpdateMany w]) \<and>
                    w_appointmentDate w = a \<and>
                    w_doctorId w = Number_js e (getProp route ''doctorId'') \<and>
                    (getProp route ''doctorId'' = JUndefined \<longrightarrow> w_doctorId w = NaN) \<and>
                    (op = DeleteQueueEntry \<or> op = MarkQueueEntryPending \<longrightarrow>
                       w_position w = Some (Number_js e (getProp (query req) ''position'')) \<and>
                       (getProp (query req) ''position'' = JUndefined \<longrightarrow>
                          w_position w = Some NaN))))"
proof -
  have undef: "Number_js e JUndefined = NaN"
    by (simp add: Number_js_def)
  show ?thesis
    using assms(3) unfolding out_def route_def
    by (cases op) (auto simp: handler_defs reply_def Let_def undef split: option.split)
qed

theorem validation_checks_body_only_witness:
  "DeleteQueueEntry \<noteq> CreateFutureAppointment \<and>
   \<not> queueRequest example_env
       (body \<lparr>params = [], query = [(''doctorId'', JStr ''5''), (''position'', JStr ''1'')],
              body = [(''hospitalId'', JNumber (Fin 1))]\<rparr>) \<and>
   handle example_env DeleteQueueEntry
       \<lparr>params = [], query = [(''doctorId'', JStr ''5''), (''position'', JStr ''1'')],
        body = [(''hospitalId'', JNumber (Fin 1))]\<rparr>
       (example_ledger (JNumber (Fin 1)))
     = \<lparr>response = \<lparr>status = 400, json = Message ''Invalid request''\<rparr>,
        store = example_ledger (JNumber (Fin 1)), calls = []\<rparr> \<and>
   queueRequest example_env
       (body \<lparr>params = [], query = [],
              body = [(''appointmentDate'', JStr ''2024-10-10''),
                      (''hospitalId'', JNumber (Fin 1))]\<rparr>) \<and>
   handle example_env DeleteQueueEntry
       \<lparr>params = [], query = [],
        body = [(''appointmentDate'', JStr ''2024-10-10''), (''hospitalId'', JNumber (Fin 1))]\<rparr>
       (example_ledger (JNumber (Fin 1)))
     = \<lparr>response = \<lparr>status = 500, json = Message ''Can't delete Queue status data''\<rparr>,
        store = example_ledger (JNumber (Fin 1)),
        calls = [DeleteMany \<lparr>w_doctorId = NaN, w_appointmentDate = 1728518400000,
                   w_hospitalId = JNumber (Fin 1), w_position = Some NaN, w_pending = None\<rparr>]\<rparr>"
  using validation_checks_body_only
          [of DeleteQueueEntry example_env
              "\<lparr>params = [], query = [(''doctorId'', JStr ''5''), (''position'', JStr ''1'')],
                body = [(''hospitalId'', JNumber (Fin 1))]\<rparr>"
              "example_ledger (JNumber (Fin 1))"]
        validation_checks_body_only
          [of DeleteQueueEntry example_env
              "\<lparr>params = [], query = [],
                body = [(''appointmentDate'', JStr ''2024-10-10''),
                        (''hospitalId'', JNumber (Fin 1))]\<rparr>"
              "example_ledger (JNumber (Fin 1))"]
  by (simp add: deleteQueueEntry_def reply_def Let_def example_env_def rejectsNaN_def
        holdsNaN_def getProp_def Number_js_def)

section \<open>The broadcaster: a ticket sent to a user\<close>

lemma received_io_emit:
  assumes "distinct clients" and "c \<in> set clients"
  shows "received c (io_emit clients name arg) = [(name, arg)]"
  using assms unfolding io_emit_def received_def
  by (induction clients) (auto simp: filter_empty_conv)

lemma received_io_emit_absent:
  assumes "c \<notin> set clients"
  shows "received c (io_emit clients name arg) = []"
  using assms unfolding io_emit_def received_def
  by (auto simp: filter_empty_conv)

lemma received_append: "received c (xs @ ys) = received c xs @ received c ys"
  by (simp add: received_def)

text \<open>
  C9. When a socket receives \<open>sendTicketToUser\<close> with the argument \<open>d\<close>, every connected
  client receives exactly two events, in this order: \<open>fetch-ticket\<close> with no argument and
  \<open>UserTicket\<close> with \<open>d\<close>. A client that is not connected receives nothing.
\<close>

theorem sendTicketToUser_broadcast:
  assumes "distinct clients"
  shows "(\<forall>c \<in> set clients.
            received c (initializeSocket clients ''sendTicketToUser'' d)
              = [(''fetch-ticket'', None), (''UserTicket'', Some d)]) \<and>
         (\<forall>c. c \<notin> set clients \<longrightarrow>
            received c (initializeSocket clients ''sendTicketToUser'' d) = [])"
  using assms
  by (simp add: initializeSocket_def received_append received_io_emit received_io_emit_absent)

theorem sendTicketToUser_broadcast_witness:
  "distinct [1, 2, 3 :: nat] \<and>
   received (1 :: nat) (initializeSocket [1, 2, 3] ''sendTicketToUser'' (JStr ''ticket 7''))
     = [(''fetch-ticket'', None), (''UserTicket'', Some (JStr ''ticket 7''))] \<and>
   received (3 :: nat) (initializeSocket [1, 2, 3] ''sendTicketToUser'' (JStr ''ticket 7''))
     = [(''fetch-ticket'', None), (''UserTicket'', Some (JStr ''ticket 7''))] \<and>
   received (4 :: nat) (initializeSocket [1, 2, 3] ''sendTicketToUser'' (JStr ''ticket 7'')) = []"
  using sendTicketToUser_broadcast [of "[1, 2, 3 :: nat]" "JStr ''ticket 7''"]
  by simp

section \<open>Creating a future appointment\<close>

text \<open>
  C10. \<open>createFutureAppointment\<close> checks nothing. Whenever \<open>nextdate\<close> parses it calls the
  store, once, to create a record that carries \<open>doctorId\<close>, \<open>patientId\<close> and \<open>notes\<close> as the
  body has them, whatever they are; it answers 201 with that record when the store accepts
  the call. Its response is 201 or 500, never the 400 of a rejected request. Every failure
  is the response 500 with the message \<open>Server error\<close> and leaves the store as it was; a
  date that cannot be parsed fails before any call to the store.
\<close>

theorem createFutureAppointment_no_validation:
  fixes e req L
  defines "out \<equiv> createFutureAppointment e req L"
  defines "row \<equiv> (\<lambda>t. \<lparr>f_doctorId = getProp (body req) ''doctorId'',
                        f_patientId = getProp (body req) ''patientId'',
                        futureAppointmentDate = t,
                        notes = getProp (body req) ''notes''\<rparr>)"
  shows "(status (response out) = 201 \<or> status (response out) = 500) \<and>
         (status (response out) = 500 \<longrightarrow>
            json (response out) = Message ''Server error'' \<and> store out = L) \<and>
         (status (response out) = 201 \<longrightarrow>
            (\<exists>t. dateToISOString e (getProp (body req) ''nextdate'') = Some t \<and>
                 calls out = [Create (row t)] \<and>
                 json (response out) = FutureReference (row t) \<and>
                 store out = L\<lparr>futureReference := futureReference L @ [row t]\<rparr>)) \<and>
         (\<forall>c \<in> set (calls out). \<exists>t. c = Create (row t)) \<and>
         (dateToISOString e (getProp (body req) ''nextdate'') = None \<longrightarrow>
            calls out = [] \<and> status (response out) = 500) \<and>
         (\<forall>t. dateToISOString e (getProp (body req) ''nextdate'') = Some t \<longrightarrow>
            calls out = [Create (row t)] \<and>
            (\<not> ledgerFails e (Create (row t)) \<longrightarrow>
               response out = \<lparr>status = 201, json = FutureReference (row t)\<rparr> \<and>
               store out = L\<lparr>futureReference := futureReference L @ [row t]\<rparr>) \<and>
            (ledgerFails e (Create (row t)) \<longrightarrow>
               response out = \<lparr>status = 500, json = Message ''Server error''\<rparr> \<and> store out = L))"
  unfolding out_def row_def
  by (simp add: createFutureAppointment_def reply_def Let_def split: option.split)

theorem createFutureAppointment_no_validation_witness:
  "dateToISOString example_env (getProp (body (example_future_request (JStr ''soon''))) ''nextdate'') = None \<and>
   calls (createFutureAppointment example_env (example_future_request (JStr ''soon''))
            (example_ledger JNull)) = [] \<and>
   response (createFutureAppointment example_env (example_future_request (JStr ''soon''))
            (example_ledger JNull)) = \<lparr>status = 500, json = Message ''Server error''\<rparr> \<and>
   status (response (createFutureAppointment example_env
            (example_future_request (JStr ''2024-10-10'')) (example_ledger JNull))) = 201 \<and>
   futureReference (store (createFutureAppointment example_env
            (example_future_request (JStr ''2024-10-10'')) (example_ledger JNull)))
     = [\<lparr>f_doctorId = JNumber (Fin 5), f_patientId = JNumber (Fin 42),
         futureAppointmentDate = 1728518400000, notes = JStr ''review''\<rparr>] \<and>
   dateToISOString example_env
     (getProp (body \<lparr>params = [], query = [], body = [(''nextdate'', JStr ''2024-10-10'')]\<rparr>) ''nextdate'')
     = Some 1728518400000 \<and>
   calls (createFutureAppointment example_env
            \<lparr>params = [], query = [], body = [(''nextdate'', JStr ''2024-10-10'')]\<rparr>
            (example_ledger JNull))
     = [Create \<lparr>f_doctorId = JUndefined, f_patientId = JUndefined,
                futureAppointmentDate = 1728518400000, notes = JUndefined\<rparr>] \<and>
   response (createFutureAppointment example_env
            \<lparr>params = [], query = [], body = [(''nextdate'', JStr ''2024-10-10'')]\<rparr>
            (example_ledger JNull))
     = \<lparr>status = 201,
        json = FutureReference \<lparr>f_doctorId = JUndefined, f_patientId = JUndefined,
                futureAppointmentDate = 1728518400000, notes = JUndefined\<rparr>\<rparr>"
proof -
  have parsed: "dateToISOString example_env
     (getProp (body \<lparr>params = [], query = [], body = [(''nextdate'', JStr ''2024-10-10'')]\<rparr>) ''nextdate'')
     = Some 1728518400000"
    by (simp add: example_defs getProp_def)
  have accepted: "\<not> ledgerFails example_env
      (Create \<lparr>f_doctorId = JUndefined, f_patientId = JUndefined,
                futureAppointmentDate = 1728518400000, notes = JUndefined\<rparr>)"
    by (simp add: example_defs)
  have bare: "calls (createFutureAppointment example_env
            \<lparr>params = [], query = [], body = [(''nextdate'', JStr ''2024-10-10'')]\<rparr>
            (example_ledger JNull))
     = [Create \<lparr>f_doctorId = JUndefined, f_patientId = JUndefined,
                futureAppointmentDate = 1728518400000, notes = JUndefined\<rparr>] \<and>
   response (createFutureAppointment example_env
            \<lparr>params = [], query = [], body = [(''nextdate'', JStr ''2024-10-10'')]\<rparr>
            (example_ledger JNull))
     = \<lparr>status = 201,
        json = FutureReference \<lparr>f_doctorId = JUndefined, f_patientId = JUndefined,
                futureAppointmentDate = 1728518400000, notes = JUndefined\<rparr>\<rparr>"
    using parsed accepted
      createFutureAppointment_no_validation
        [of example_env "\<lparr>params = [], query = [], body = [(''nextdate'', JStr ''2024-10-10'')]\<rparr>"
            "example_ledger JNull"]
    by (simp add: getProp_def)
  show ?thesis
    using bare parsed
        createFutureAppointment_no_validation
          [of example_env "example_future_request (JStr ''soon'')" "example_ledger JNull"]
        createFutureAppointment_no_validation
          [of example_env "example_future_request (JStr ''2024-10-10'')" "example_ledger JNull"]
    by (simp add: createFutureAppointment_def reply_def example_defs getProp_def Let_def)
qed

end
